theory Spec2Isabelle
  imports Main
begin

section \<open>Python values\<close>

text \<open>
  The values that the attributes of a \<open>Response\<close> hold: \<open>None\<close>, booleans, unbounded
  integers, strings, lists and dictionaries with string keys. A dictionary is an association
  list in insertion order, as Python's \<open>dict\<close> keeps it.

  In this first part a list or a dictionary is a value, compared by content: appending a
  value to a list stores its content. That is what the code does in a chain of calls in which
  no list or dictionary is reached by two paths, as in the constructors below. The second
  part of the theory keeps lists and dictionaries as objects in a store, for the runs in which
  a caller hands objects of a \<open>Response\<close> back to it.
\<close>

datatype pyval =
    PNone
  | PBool bool
  | PInt int
  | PStr string
  | PList "pyval list"
  | PDict "(string \<times> pyval) list"

type_synonym pydict = "(string \<times> pyval) list"

text \<open>Python's truth test, as \<open>if v:\<close> performs it.\<close>

fun truthy :: "pyval \<Rightarrow> bool" where
  "truthy PNone = False"
| "truthy (PBool b) = b"
| "truthy (PInt i) = (i \<noteq> 0)"
| "truthy (PStr s) = (s \<noteq> [])"
| "truthy (PList xs) = (xs \<noteq> [])"
| "truthy (PDict d) = (d \<noteq> [])"

text \<open>
  The exceptions. \<open>InvalidReference\<close> is no exception of Python: it answers a reference
  to no object, which the total functions of the second part must answer and no state of a
  Python program holds.
\<close>

datatype error =
    KeyError string
  | AttributeError
  | TypeError
  | ValueError
  | RecursionError
  | InvalidReference

text \<open>\<open>d[k]\<close>: raises \<open>KeyError\<close> when the key is missing.\<close>

definition dict_getitem :: "(string \<times> 'v) list \<Rightarrow> string \<Rightarrow> error + 'v" where
  "dict_getitem d k = (case map_of d k of None \<Rightarrow> Inl (KeyError k) | Some v \<Rightarrow> Inr v)"

text \<open>\<open>d[k] = v\<close>: an existing key keeps its position, a new key goes last.\<close>

fun dict_setitem :: "(string \<times> 'v) list \<Rightarrow> string \<Rightarrow> 'v \<Rightarrow> (string \<times> 'v) list" where
  "dict_setitem [] k v = [(k, v)]"
| "dict_setitem ((k', v') # d) k v =
     (if k' = k then (k, v) # d else (k', v') # dict_setitem d k v)"

text \<open>\<open>x.append(v)\<close>: only a list has the method.\<close>

fun list_append :: "pyval \<Rightarrow> pyval \<Rightarrow> error + pyval" where
  "list_append (PList xs) v = Inr (PList (xs @ [v]))"
| "list_append _ v = Inl AttributeError"

section \<open>The class \<open>Response\<close>\<close>

record Response =
  attributes :: pydict

text \<open>
  \<open>Response.__init__(attributes=None)\<close>. The test \<open>if attributes:\<close> is Python's truth
  test, so both \<open>None\<close> and the empty dictionary take the \<open>else\<close> branch.
\<close>

definition default_attributes :: pydict where
  "default_attributes =
     dict_setitem (dict_setitem (dict_setitem (dict_setitem (dict_setitem (dict_setitem
       (dict_setitem [] ''text'' PNone) ''roomId'' PNone) ''parentId'' PNone)
       ''markdown'' PNone) ''html'' PNone) ''files'' (PList [])) ''attachments'' (PList [])"

definition Response_init :: "pydict option \<Rightarrow> Response" where
  "Response_init attrs =
     (case attrs of
        None \<Rightarrow> \<lparr>attributes = default_attributes\<rparr>
      | Some a \<Rightarrow>
          if truthy (PDict a) then \<lparr>attributes = a\<rparr>
          else \<lparr>attributes = default_attributes\<rparr>)"

text \<open>The property getters: \<open>self.attributes[name]\<close>.\<close>

definition text_getter :: "Response \<Rightarrow> error + pyval" where
  "text_getter r = dict_getitem (attributes r) ''text''"

definition files :: "Response \<Rightarrow> error + pyval" where
  "files r = dict_getitem (attributes r) ''files''"

definition attachments :: "Response \<Rightarrow> error + pyval" where
  "attachments r = dict_getitem (attributes r) ''attachments''"

definition roomId :: "Response \<Rightarrow> error + pyval" where
  "roomId r = dict_getitem (attributes r) ''roomId''"

definition parentId :: "Response \<Rightarrow> error + pyval" where
  "parentId r = dict_getitem (attributes r) ''parentId''"

definition markdown :: "Response \<Rightarrow> error + pyval" where
  "markdown r = dict_getitem (attributes r) ''markdown''"

definition html :: "Response \<Rightarrow> error + pyval" where
  "html r = dict_getitem (attributes r) ''html''"

text \<open>
  The property setters. The five scalar ones store the value; the setters of \<open>files\<close>
  and \<open>attachments\<close> read the stored value and call its \<open>append\<close>.
\<close>

definition text_setter :: "Response \<Rightarrow> pyval \<Rightarrow> error + Response" where
  "text_setter r val = Inr (r\<lparr>attributes := dict_setitem (attributes r) ''text'' val\<rparr>)"

definition files_setter :: "Response \<Rightarrow> pyval \<Rightarrow> error + Response" where
  "files_setter r val =
     (case dict_getitem (attributes r) ''files'' of
        Inl e \<Rightarrow> Inl e
      | Inr l \<Rightarrow>
          (case list_append l val of
             Inl e \<Rightarrow> Inl e
           | Inr l' \<Rightarrow> Inr (r\<lparr>attributes := dict_setitem (attributes r) ''files'' l'\<rparr>)))"

definition attachments_setter :: "Response \<Rightarrow> pyval \<Rightarrow> error + Response" where
  "attachments_setter r val =
     (case dict_getitem (attributes r) ''attachments'' of
        Inl e \<Rightarrow> Inl e
      | Inr l \<Rightarrow>
          (case list_append l val of
             Inl e \<Rightarrow> Inl e
           | Inr l' \<Rightarrow> Inr (r\<lparr>attributes := dict_setitem (attributes r) ''attachments'' l'\<rparr>)))"

definition roomId_setter :: "Response \<Rightarrow> pyval \<Rightarrow> error + Response" where
  "roomId_setter r val = Inr (r\<lparr>attributes := dict_setitem (attributes r) ''roomId'' val\<rparr>)"

definition parentId_setter :: "Response \<Rightarrow> pyval \<Rightarrow> error + Response" where
  "parentId_setter r val = Inr (r\<lparr>attributes := dict_setitem (attributes r) ''parentId'' val\<rparr>)"

definition markdown_setter :: "Response \<Rightarrow> pyval \<Rightarrow> error + Response" where
  "markdown_setter r val = Inr (r\<lparr>attributes := dict_setitem (attributes r) ''markdown'' val\<rparr>)"

definition html_setter :: "Response \<Rightarrow> pyval \<Rightarrow> error + Response" where
  "html_setter r val = Inr (r\<lparr>attributes := dict_setitem (attributes r) ''html'' val\<rparr>)"

text \<open>
  \<open>Response.as_dict()\<close>: the loop over \<open>self.attributes.items()\<close>, storing every
  pair whose value passes the truth test into a fresh dictionary.
\<close>

definition as_dict :: "Response \<Rightarrow> pydict" where
  "as_dict r =
     foldl (\<lambda>ret (k, v). if truthy v then dict_setitem ret k v else ret) [] (attributes r)"

section \<open>The convenience constructors\<close>

text \<open>Sequencing of calls that may raise: the first exception ends the run.\<close>

fun and_then :: "error + 'a \<Rightarrow> ('a \<Rightarrow> error + 'b) \<Rightarrow> error + 'b" where
  "and_then (Inl e) f = Inl e"
| "and_then (Inr x) f = f x"

text \<open>
  \<open>response_from_adaptive_card(adaptive_card)\<close>. The card class belongs to the Webex SDK;
  its method \<open>to_dict\<close> is a parameter of the model.
\<close>

definition response_from_adaptive_card :: "('card \<Rightarrow> pyval) \<Rightarrow> 'card \<Rightarrow> error + Response" where
  "response_from_adaptive_card to_dict adaptive_card =
     and_then (text_setter (Response_init None)
        (PStr ''This bot requires a client which can render cards.'')) (\<lambda>r1.
     and_then (markdown_setter r1
        (PStr ''This bot requires a client which can render cards.'')) (\<lambda>r2.
     attachments_setter r2
        (PDict [(''contentType'', PStr ''application/vnd.microsoft.card.adaptive''),
                (''content'', to_dict adaptive_card)])))"

text \<open>
  \<open>response_custom_format(text, markdown, files=None, attachments=None)\<close>. An omitted
  argument is \<open>PNone\<close>; \<open>if files:\<close> and \<open>if attachments:\<close> are truth tests.
\<close>

definition response_custom_format :: "pyval \<Rightarrow> pyval \<Rightarrow> pyval \<Rightarrow> pyval \<Rightarrow> error + Response" where
  "response_custom_format text_arg markdown_arg files_arg attachments_arg =
     and_then (text_setter (Response_init None) text_arg) (\<lambda>r1.
     and_then (markdown_setter r1 markdown_arg) (\<lambda>r2.
     and_then (if truthy files_arg then files_setter r2 files_arg else Inr r2) (\<lambda>r3.
     if truthy attachments_arg then attachments_setter r3 attachments_arg else Inr r3)))"

section \<open>Objects in a store\<close>

text \<open>
  In Python a list or a dictionary is an object, and a variable, a list item or a dictionary
  value holds a reference to it. \<open>self.attributes["files"].append(val)\<close> stores the
  reference \<open>val\<close>, not a copy, and \<open>Response(attributes)\<close> keeps the caller's dictionary
  itself. Here the objects live in a store; the object of address \<open>a\<close> is item \<open>a\<close> of the
  store. A value is a scalar or a reference. \<open>VBytes\<close> stands for the values that the
  setters accept and JSON has no form for.
\<close>

type_synonym addr = nat

datatype oval =
    VNone
  | VBool bool
  | VInt int
  | VStr string
  | VBytes string
  | VRef addr

datatype pyobj =
    ListObj "oval list"
  | DictObj "(string \<times> oval) list"

type_synonym store = "pyobj list"

definition obj_at :: "store \<Rightarrow> addr \<Rightarrow> pyobj option" where
  "obj_at h a = (if a < length h then Some (h ! a) else None)"



text \<open>
  \<open>obj[k]\<close> and \<open>obj[k] = v\<close> with a string \<open>k\<close>, on the object of address \<open>a\<close>: a list
  takes no string as index.
\<close>

definition getitem_st :: "store \<Rightarrow> addr \<Rightarrow> string \<Rightarrow> error + oval" where
  "getitem_st h a k =
     (case obj_at h a of
        None \<Rightarrow> Inl InvalidReference
      | Some (ListObj xs) \<Rightarrow> Inl TypeError
      | Some (DictObj d) \<Rightarrow> dict_getitem d k)"




subsection \<open>The class \<open>Response\<close> on the store\<close>



text \<open>The getters \<open>self.attributes[name]\<close> and the setters, as in the class.\<close>

definition text_getter_st :: "store \<Rightarrow> addr \<Rightarrow> error + oval" where
  "text_getter_st h self = getitem_st h self ''text''"



definition roomId_st :: "store \<Rightarrow> addr \<Rightarrow> error + oval" where
  "roomId_st h self = getitem_st h self ''roomId''"

definition parentId_st :: "store \<Rightarrow> addr \<Rightarrow> error + oval" where
  "parentId_st h self = getitem_st h self ''parentId''"

definition markdown_st :: "store \<Rightarrow> addr \<Rightarrow> error + oval" where
  "markdown_st h self = getitem_st h self ''markdown''"

definition html_st :: "store \<Rightarrow> addr \<Rightarrow> error + oval" where
  "html_st h self = getitem_st h self ''html''"









section \<open>The standard library's JSON encoder and decoder\<close>

text \<open>
  \<open>Response.json\<close> calls \<open>json.dumps\<close> of Python's standard library. The functions
  below follow that module with its default options (\<open>ensure_ascii\<close>, \<open>check_circular\<close>,
  the separators \<open>", "\<close> and \<open>": "\<close>, no indentation). A character of a \<open>string\<close> stands
  for the code point of the same number, so the strings of the model are those over the code
  points below 256.
\<close>

subsection \<open>\<open>json.dumps\<close>\<close>






text \<open>
  \<open>py_encode_basestring_ascii\<close>: the quote, the backslash and the control characters
  with a short escape get it; every other character outside \<open>' '..'~'\<close> becomes
  \<open>\uXXXX\<close> with lower-case hexadecimal digits.
\<close>

definition hex_digit :: "nat \<Rightarrow> char" where
  "hex_digit n = (if n < 10 then char_of (48 + n) else char_of (87 + n))"

definition escape_char :: "char \<Rightarrow> string" where
  "escape_char c =
     (if c = CHR 0x22 then [CHR 0x5C, CHR 0x22]
      else if c = CHR 0x5C then [CHR 0x5C, CHR 0x5C]
      else if c = CHR 0x0A then [CHR 0x5C, CHR ''n'']
      else if c = CHR 0x0D then [CHR 0x5C, CHR ''r'']
      else if c = CHR 0x09 then [CHR 0x5C, CHR ''t'']
      else if c = CHR 0x08 then [CHR 0x5C, CHR ''b'']
      else if c = CHR 0x0C then [CHR 0x5C, CHR ''f'']
      else if (of_char c :: nat) < 0x20 \<or> (of_char c :: nat) > 0x7E
        then [CHR 0x5C, CHR ''u'', CHR ''0'', CHR ''0'',
              hex_digit (of_char c div 16), hex_digit (of_char c mod 16)]
      else [c])"

definition encode_basestring_ascii :: "string \<Rightarrow> string" where
  "encode_basestring_ascii s = CHR 0x22 # concat (map escape_char s) @ [CHR 0x22]"


subsection \<open>\<open>json.loads\<close>\<close>














section \<open>The export to JSON and runs of operations\<close>






section \<open>Notions used in the proofs\<close>





text \<open>Every dictionary of the store holds each key once.\<close>

definition wf_store :: "store \<Rightarrow> bool" where
  "wf_store h = (\<forall>obj \<in> set h. case obj of DictObj d \<Rightarrow> distinct (map fst d) | ListObj xs \<Rightarrow> True)"

text \<open>
  The text that follows a value inside a document produced by the encoder: nothing, or an
  item separator, or a closing bracket or brace.
\<close>

definition delimited :: "string \<Rightarrow> bool" where
  "delimited rest =
     (case rest of
        [] \<Rightarrow> True
      | c # _ \<Rightarrow> c = CHR '','' \<or> c = CHR '']'' \<or> c = CHR ''}'')"



section \<open>Dictionaries\<close>

lemma dict_getitem_setitem:
  "dict_getitem (dict_setitem d k v) k' = (if k' = k then Inr v else dict_getitem d k')"
  by (induction d) (auto simp: dict_getitem_def)

lemma map_fst_dict_setitem:
  "map fst (dict_setitem d k v) =
     (if k \<in> set (map fst d) then map fst d else map fst d @ [k])"
proof (induction d)
  case Nil
  show ?case by simp
next
  case (Cons p d)
  obtain k' v' where p: "p = (k', v')" by (cases p)
  from Cons show ?case by (cases "k' = k") (simp_all add: p)
qed

lemma keys_dict_setitem:
  "set (map fst (dict_setitem d k v)) = insert k (set (map fst d))"
  by (auto simp: map_fst_dict_setitem)


lemma dict_setitem_fresh:
  "k \<notin> fst ` set d \<Longrightarrow> dict_setitem d k v = d @ [(k, v)]"
  by (induction d) auto

section \<open>Reading and appending\<close>

lemma default_attributes_eq:
  "default_attributes =
     [(''text'', PNone), (''roomId'', PNone), (''parentId'', PNone), (''markdown'', PNone),
      (''html'', PNone), (''files'', PList []), (''attachments'', PList [])]"
  by (simp add: default_attributes_def)

lemmas getters = text_getter_def files_def attachments_def roomId_def parentId_def
  markdown_def html_def

lemmas scalar_setters = text_setter_def roomId_setter_def parentId_setter_def
  markdown_setter_def html_setter_def

lemma files_setter_list:
  "dict_getitem (attributes r) ''files'' = Inr (PList xs) \<Longrightarrow>
   files_setter r val = Inr (r\<lparr>attributes := dict_setitem (attributes r) ''files'' (PList (xs @ [val]))\<rparr>)"
  by (simp add: files_setter_def)

lemma attachments_setter_list:
  "dict_getitem (attributes r) ''attachments'' = Inr (PList xs) \<Longrightarrow>
   attachments_setter r val =
     Inr (r\<lparr>attributes := dict_setitem (attributes r) ''attachments'' (PList (xs @ [val]))\<rparr>)"
  by (simp add: attachments_setter_def)

lemma default_getitem:
  "dict_getitem default_attributes ''files'' = Inr (PList [])"
  "dict_getitem default_attributes ''attachments'' = Inr (PList [])"
  by (simp_all add: default_attributes_eq dict_getitem_def)

section \<open>Construction\<close>

text \<open>
  C6: a \<open>Response\<close> constructed with no input has \<open>files == []\<close>,
  \<open>attachments == []\<close>, and its five scalar fields \<open>text\<close>, \<open>markdown\<close>, \<open>html\<close>,
  \<open>roomId\<close> and \<open>parentId\<close> are \<open>None\<close>.
\<close>

theorem default_constructed_fields:
  "files (Response_init None) = Inr (PList [])
   \<and> attachments (Response_init None) = Inr (PList [])
   \<and> text_getter (Response_init None) = Inr PNone
   \<and> markdown (Response_init None) = Inr PNone
   \<and> html (Response_init None) = Inr PNone
   \<and> roomId (Response_init None) = Inr PNone
   \<and> parentId (Response_init None) = Inr PNone"
  by (simp add: Response_init_def default_attributes_eq dict_getitem_def files_def
      attachments_def text_getter_def markdown_def html_def roomId_def parentId_def)

text \<open>
  C9: constructing a \<open>Response\<close> with an empty mapping gives exactly the state of the
  default construction. The empty mapping is falsy, so it is not used as the record: the
  record holds the seven canonical keys with their defaults, \<open>None\<close> for the five scalar
  fields and an empty list for \<open>files\<close> and for \<open>attachments\<close>.
\<close>

theorem empty_mapping_is_default:
  "Response_init (Some []) = Response_init None
   \<and> attributes (Response_init (Some [])) =
       [(''text'', PNone), (''roomId'', PNone), (''parentId'', PNone), (''markdown'', PNone),
        (''html'', PNone), (''files'', PList []), (''attachments'', PList [])]"
  by (simp add: Response_init_def default_attributes_eq)

text \<open>
  C8, amended: for every non-empty caller-supplied mapping, the constructor uses that mapping
  as the internal record as it is: no default key is added, nothing is checked. The empty
  mapping is the one mapping set aside; it takes the default branch.
\<close>

theorem mapping_used_directly:
  "a \<noteq> [] \<Longrightarrow> Response_init (Some a) = \<lparr>attributes = a\<rparr>"
  by (simp add: Response_init_def)

text \<open>
  The amended C8 at the one-entry mapping \<open>{"text": "hi"}\<close>: the record is that mapping,
  without any of the other six keys.
\<close>

theorem mapping_used_directly_witness:
  "[(''text'', PStr ''hi'')] \<noteq> []
   \<and> attributes (Response_init (Some [(''text'', PStr ''hi'')])) = [(''text'', PStr ''hi'')]"
  using mapping_used_directly [of "[(''text'', PStr ''hi'')]"] by simp

text \<open>
  C8 as stated fails at the empty mapping: the record the constructor builds from it is not
  that mapping.
\<close>

theorem empty_mapping_not_used:
  "attributes (Response_init (Some [])) \<noteq> []"
  by (simp add: Response_init_def default_attributes_eq)

section \<open>The append-only setters\<close>

text \<open>
  C4: on a default-constructed \<open>Response\<close>, the \<open>files\<close> setter called with \<open>a\<close> and then
  with \<open>b\<close> leaves \<open>files == [a, b]\<close>; each call appends to the sequence and none replaces
  it. The same holds for the \<open>attachments\<close> setter.
\<close>

theorem setters_append_only:
  "and_then (and_then (files_setter (Response_init None) a) (\<lambda>r. files_setter r b)) files
     = Inr (PList [a, b])
   \<and> and_then (and_then (attachments_setter (Response_init None) a)
        (\<lambda>r. attachments_setter r b)) attachments
     = Inr (PList [a, b])"
  by (simp add: Response_init_def files_setter_list attachments_setter_list default_getitem
      dict_getitem_setitem getters)

section \<open>The convenience constructors, proved\<close>

text \<open>
  C3: for every card, \<open>response_from_adaptive_card\<close> returns a \<open>Response\<close> whose
  \<open>text\<close> and \<open>markdown\<close> are the fixed fallback string and whose \<open>attachments\<close> holds
  exactly one entry, the mapping of \<open>contentType\<close> to the adaptive-card MIME type and of
  \<open>content\<close> to the card's \<open>to_dict()\<close>.
\<close>

theorem adaptive_card_response:
  "\<exists>r. response_from_adaptive_card to_dict card = Inr r
     \<and> text_getter r = Inr (PStr ''This bot requires a client which can render cards.'')
     \<and> markdown r = Inr (PStr ''This bot requires a client which can render cards.'')
     \<and> attachments r = Inr (PList [PDict
          [(''contentType'', PStr ''application/vnd.microsoft.card.adaptive''),
           (''content'', to_dict card)]])"
  by (simp add: response_from_adaptive_card_def Response_init_def scalar_setters
      attachments_setter_list default_getitem dict_getitem_setitem getters)

text \<open>
  C1: \<open>response_custom_format("hi", "**hi**", files=["f1.png"])\<close> returns a \<open>Response\<close>
  with \<open>text == "hi"\<close>, \<open>markdown == "**hi**"\<close> and \<open>as_dict()["files"] == [["f1.png"]]\<close>.
  In general a non-empty \<open>files\<close> list is appended as one element, nested and not
  flattened, and so is a non-empty \<open>attachments\<close> list, whatever the other arguments are.
\<close>

theorem custom_format_nests:
  "(\<exists>r. response_custom_format (PStr ''hi'') (PStr ''**hi**'') (PList [PStr ''f1.png'']) PNone
          = Inr r
      \<and> text_getter r = Inr (PStr ''hi'')
      \<and> markdown r = Inr (PStr ''**hi**'')
      \<and> dict_getitem (as_dict r) ''files'' = Inr (PList [PList [PStr ''f1.png'']]))
   \<and> (\<exists>r. response_custom_format t m (PList (f # fs)) x = Inr r
      \<and> files r = Inr (PList [PList (f # fs)]))
   \<and> (\<exists>r. response_custom_format t m y (PList (a # as)) = Inr r
      \<and> attachments r = Inr (PList [PList (a # as)]))"
proof -
  have "\<exists>r. response_custom_format (PStr ''hi'') (PStr ''**hi**'') (PList [PStr ''f1.png'']) PNone
          = Inr r
      \<and> text_getter r = Inr (PStr ''hi'')
      \<and> markdown r = Inr (PStr ''**hi**'')
      \<and> dict_getitem (as_dict r) ''files'' = Inr (PList [PList [PStr ''f1.png'']])"
    by (simp add: response_custom_format_def Response_init_def default_attributes_eq
        scalar_setters files_setter_def dict_getitem_def as_dict_def getters)
  moreover have "\<exists>r. response_custom_format t m (PList (f # fs)) x = Inr r
      \<and> files r = Inr (PList [PList (f # fs)])"
    by (simp add: response_custom_format_def Response_init_def scalar_setters
        files_setter_list attachments_setter_list default_getitem dict_getitem_setitem getters)
  moreover have "\<exists>r. response_custom_format t m y (PList (a # as)) = Inr r
      \<and> attachments r = Inr (PList [PList (a # as)])"
    by (simp add: response_custom_format_def Response_init_def scalar_setters
        files_setter_list attachments_setter_list default_getitem dict_getitem_setitem getters)
  ultimately show ?thesis by simp
qed

text \<open>
  C10: \<open>response_custom_format\<close> with \<open>files\<close> equal to the empty list does not call
  the \<open>files\<close> setter: the result is the one for an omitted \<open>files\<close> argument, and its
  \<open>files\<close> is \<open>[]\<close>, not \<open>[[]]\<close>. The same holds for an empty \<open>attachments\<close> list.
\<close>

theorem custom_format_empty_sequences:
  "response_custom_format t m (PList []) a = response_custom_format t m PNone a
   \<and> (\<exists>r. response_custom_format t m (PList []) a = Inr r \<and> files r = Inr (PList []))
   \<and> response_custom_format t m f (PList []) = response_custom_format t m f PNone
   \<and> (\<exists>r. response_custom_format t m f (PList []) = Inr r \<and> attachments r = Inr (PList []))"
  by (simp add: response_custom_format_def Response_init_def scalar_setters
      files_setter_list attachments_setter_list default_getitem dict_getitem_setitem getters)

section \<open>The filtered export\<close>

lemma as_dict_loop:
  "distinct (map fst xs) \<Longrightarrow> fst ` set acc \<inter> fst ` set xs = {} \<Longrightarrow>
   foldl (\<lambda>ret (k, v). if truthy v then dict_setitem ret k v else ret) acc xs
     = acc @ filter (\<lambda>(k, v). truthy v) xs"
proof (induction xs arbitrary: acc)
  case Nil
  show ?case by simp
next
  case (Cons p xs)
  obtain k v where p: "p = (k, v)" by (cases p)
  from Cons.prems have fresh: "k \<notin> fst ` set acc" and d: "distinct (map fst xs)"
    and kx: "k \<notin> fst ` set xs" and disj: "fst ` set acc \<inter> fst ` set xs = {}"
    by (auto simp: p)
  show ?case
  proof (cases "truthy v")
    case True
    have "fst ` set (acc @ [(k, v)]) \<inter> fst ` set xs = {}"
      using kx disj by auto
    from Cons.IH [OF d this] True fresh show ?thesis
      by (simp add: p dict_setitem_fresh)
  next
    case False
    from Cons.IH [OF d disj] False show ?thesis by (simp add: p)
  qed
qed

lemma as_dict_filter:
  "distinct (map fst (attributes r)) \<Longrightarrow>
   as_dict r = filter (\<lambda>(k, v). truthy v) (attributes r)"
  using as_dict_loop [of "attributes r" "[]"] by (simp add: as_dict_def)

lemma map_of_filter_truthy:
  "distinct (map fst d) \<Longrightarrow>
   map_of (filter (\<lambda>(k, v). truthy v) d) k =
     (case map_of d k of None \<Rightarrow> None | Some v \<Rightarrow> if truthy v then Some v else None)"
proof (induction d)
  case Nil
  show ?case by simp
next
  case (Cons p d)
  obtain k' v' where p: "p = (k', v')" by (cases p)
  from Cons.prems have d: "distinct (map fst d)" and fresh: "k' \<notin> fst ` set d"
    by (auto simp: p)
  have none: "map_of (filter (\<lambda>(k, v). truthy v) d) k' = None"
    using fresh by (auto simp: map_of_eq_None_iff)
  show ?case
    using Cons.IH [OF d] none by (auto simp: p)
qed

lemma as_dict_lookup:
  "distinct (map fst (attributes r)) \<Longrightarrow>
   map_of (as_dict r) k =
     (case map_of (attributes r) k of None \<Rightarrow> None | Some v \<Rightarrow> if truthy v then Some v else None)"
  by (simp add: as_dict_filter map_of_filter_truthy)

text \<open>
  C2: for every \<open>Response\<close> (a dictionary has each key once), the keys of \<open>as_dict()\<close>
  are exactly the keys of the internal record whose value is truthy; a key of \<open>as_dict()\<close>
  maps to a truthy value, the one it has in the record; \<open>None\<close>, the empty list and the
  empty string are falsy.
\<close>

theorem as_dict_exactly_truthy:
  assumes "distinct (map fst (attributes r))"
  shows "(k \<in> fst ` set (as_dict r)) = (\<exists>v. map_of (attributes r) k = Some v \<and> truthy v)
    \<and> (\<forall>v. map_of (as_dict r) k = Some v \<longrightarrow> truthy v \<and> map_of (attributes r) k = Some v)
    \<and> \<not> truthy PNone \<and> \<not> truthy (PList []) \<and> \<not> truthy (PStr [])"
proof -
  note L = as_dict_lookup [OF assms, of k]
  have "(k \<in> fst ` set (as_dict r)) = (map_of (as_dict r) k \<noteq> None)"
    by (simp add: map_of_eq_None_iff)
  also have "\<dots> = (\<exists>v. map_of (attributes r) k = Some v \<and> truthy v)"
    by (simp add: L split: option.splits)
  finally have keys: "(k \<in> fst ` set (as_dict r)) = (\<exists>v. map_of (attributes r) k = Some v \<and> truthy v)" .
  have vals: "\<forall>v. map_of (as_dict r) k = Some v \<longrightarrow> truthy v \<and> map_of (attributes r) k = Some v"
    by (simp add: L split: option.splits if_splits)
  from keys vals show ?thesis by simp
qed

text \<open>
  C2 at the record \<open>{"text": "hi", "html": "", "files": []}\<close>: \<open>text\<close> is exported,
  \<open>html\<close> is not.
\<close>

theorem as_dict_exactly_truthy_witness:
  "distinct (map fst (attributes \<lparr>attributes = [(''text'', PStr ''hi''), (''html'', PStr []), (''files'', PList [])]\<rparr>))
   \<and> (''text'' \<in> fst ` set (as_dict \<lparr>attributes = [(''text'', PStr ''hi''), (''html'', PStr []), (''files'', PList [])]\<rparr>))
   \<and> \<not> (''html'' \<in> fst ` set (as_dict \<lparr>attributes = [(''text'', PStr ''hi''), (''html'', PStr []), (''files'', PList [])]\<rparr>))"
proof -
  let ?r = "\<lparr>attributes = [(''text'', PStr ''hi''), (''html'', PStr []), (''files'', PList [])]\<rparr>"
  have d: "distinct (map fst (attributes ?r))" by simp
  from as_dict_exactly_truthy [OF d, of "''text''"] as_dict_exactly_truthy [OF d, of "''html''"] d
  show ?thesis by simp
qed

section \<open>The store\<close>





section \<open>The sequence fields under any run of operations\<close>
















section \<open>Decoding what the encoder wrote\<close>

subsection \<open>Integers\<close>











subsection \<open>Numbers and strings\<close>

lemma delimited_simps [simp]:
  "delimited []" "delimited (CHR '','' # t)" "delimited (CHR '']'' # t)"
  "delimited (CHR ''}'' # t)"
  by (simp_all add: delimited_def)













lemma scanstring_encoded:
  "encode_basestring_ascii s @ rest = CHR 0x22 # concat (map escape_char s) @ CHR 0x22 # rest"
  by (simp add: encode_basestring_ascii_def)

subsection \<open>Lists, dictionaries and all values\<close>
















section \<open>The unfiltered export\<close>

subsection \<open>What a run keeps\<close>





lemma wf_store_new_list: "wf_store h \<Longrightarrow> wf_store (h @ [ListObj xs])"
  by (simp add: wf_store_def)












subsection \<open>The encoder and the content of the store\<close>
















subsection \<open>The filtered export on the store\<close>







end
